theory Spec2Isabelle
  imports Main
begin

section \<open>Domain errors (package entities)\<close>

text \<open>
  A Go \<open>error\<close> value is either one of the sentinel values declared in package
  \<open>entities\<close> (compared by identity in the handlers' \<open>switch err\<close>) or a value
  made elsewhere (\<open>fmt.Errorf\<close>, \<open>errors.New\<close>, an error of an imported library),
  of which only the text is observable. \<open>Errorf\<close> stands for the second kind.
\<close>

datatype error =
    ErrUserNotFound
  | ErrUserAlreadyExists
  | ErrInvalidCredentials
  | ErrInvalidUsername
  | ErrPasswordTooShort
  | ErrUnauthorized
  | ErrForbidden
  | ErrInvalidToken
  | ErrTokenExpired
  | ErrInvalidRole
  | ErrSessionNotFound
  | ErrSessionExpired
  | ErrUserDeactivated
  | Errorf string

text \<open>The method \<open>err.Error()\<close>: the text given to \<open>errors.New\<close>.\<close>

fun Error :: "error \<Rightarrow> string" where
  "Error ErrUserNotFound = ''user not found''"
| "Error ErrUserAlreadyExists = ''user already exists''"
| "Error ErrInvalidCredentials = ''invalid credentials''"
| "Error ErrInvalidUsername = ''invalid username''"
| "Error ErrPasswordTooShort = ''password too short''"
| "Error ErrUnauthorized = ''unauthorized''"
| "Error ErrForbidden = ''forbidden''"
| "Error ErrInvalidToken = ''invalid token''"
| "Error ErrTokenExpired = ''token expired''"
| "Error ErrInvalidRole = ''invalid role''"
| "Error ErrSessionNotFound = ''session not found''"
| "Error ErrSessionExpired = ''session expired''"
| "Error ErrUserDeactivated = ''user account is deactivated''"
| "Error (Errorf msg) = msg"

section \<open>The user entity (package entities)\<close>

text \<open>\<open>type Role string\<close>: a role is any string; four of them are named.\<close>

type_synonym Role = string

definition RoleAdmin :: Role where "RoleAdmin = ''admin''"
definition RoleManager :: Role where "RoleManager = ''manager''"
definition RoleUser :: Role where "RoleUser = ''user''"
definition RoleGuest :: Role where "RoleGuest = ''guest''"

text \<open>
  Go's \<open>uint\<close> identifiers are natural numbers, instants are whole seconds (the
  precision of a token's numeric dates), and \<open>len\<close> of a string counts its bytes,
  which is the length of a \<open>string\<close> here.
\<close>

record User =
  ID :: nat
  Username :: string
  Password :: string
  FirstName :: string
  LastName :: string
  Role :: Role
  IsActive :: bool
  LastLogin :: "int option"
  CreatedAt :: int
  UpdatedAt :: int

section \<open>JSON values, request context and cookies (gin)\<close>

datatype json = JString string | JNumber int | JBool bool | JArray "json list" | JNull

text \<open>\<open>gin.H\<close>, the body passed to \<open>c.JSON\<close>, in the order the source lists its fields.\<close>

type_synonym H = "(string \<times> json) list"

text \<open>\<open>service.UserInfo\<close>, the identity extracted from a validated token.\<close>

record UserInfo =
  UserInfo_UserID :: nat
  UserInfo_Username :: string
  UserInfo_Role :: string

text \<open>The dynamically typed values the middleware stores with \<open>c.Set\<close>.\<close>

datatype any = AnyUint nat | AnyString string | AnyUserInfo UserInfo

text \<open>One call of \<open>c.SetCookie(name, value, maxAge, path, domain, secure, httpOnly)\<close>.\<close>

record Cookie =
  cookie_name :: string
  cookie_value :: string
  cookie_maxAge :: int
  cookie_path :: string
  cookie_domain :: string
  cookie_secure :: bool
  cookie_httpOnly :: bool

text \<open>
  The part of \<open>gin.Context\<close> the middleware reads and writes: the Authorization header
  of the request (\<open>c.GetHeader\<close> gives the empty string when it is absent), the
  request's cookies, the request-scoped key/value store, the cookies set on the
  response, the response written by \<open>c.JSON\<close>, and whether \<open>c.Abort()\<close> or
  \<open>c.Next()\<close> was called.
\<close>

record Context =
  hdr_Authorization :: string
  req_cookies :: "string \<Rightarrow> string option"
  Keys :: "string \<Rightarrow> any option"
  set_cookies :: "Cookie list"
  response :: "(nat \<times> H) option"
  aborted :: bool
  next_called :: bool

definition GetHeader_Authorization :: "Context \<Rightarrow> string" where
  "GetHeader_Authorization c = hdr_Authorization c"

text \<open>\<open>c.Cookie(name)\<close>: the value, or an error when the request has no such cookie.\<close>

definition Cookie :: "Context \<Rightarrow> string \<Rightarrow> error + string" where
  "Cookie c name =
     (case req_cookies c name of
        None \<Rightarrow> Inl (Errorf ''http: named cookie not present'')
      | Some v \<Rightarrow> Inr v)"

definition SetCookie ::
  "Context \<Rightarrow> string \<Rightarrow> string \<Rightarrow> int \<Rightarrow> string \<Rightarrow> string \<Rightarrow> bool \<Rightarrow> bool \<Rightarrow> Context" where
  "SetCookie c name val maxAge path dmn sec ho =
     c\<lparr>set_cookies := set_cookies c @
          [\<lparr>cookie_name = name, cookie_value = val, cookie_maxAge = maxAge,
            cookie_path = path, cookie_domain = dmn, cookie_secure = sec,
            cookie_httpOnly = ho\<rparr>]\<rparr>"

definition Set :: "Context \<Rightarrow> string \<Rightarrow> any \<Rightarrow> Context" where
  "Set c k v = c\<lparr>Keys := (Keys c)(k \<mapsto> v)\<rparr>"

definition JSON :: "Context \<Rightarrow> nat \<Rightarrow> H \<Rightarrow> Context" where
  "JSON c code body = c\<lparr>response := Some (code, body)\<rparr>"

definition Abort :: "Context \<Rightarrow> Context" where
  "Abort c = c\<lparr>aborted := True\<rparr>"

text \<open>\<open>c.Next()\<close> hands the request to the rest of the handler chain.\<close>

definition Next :: "Context \<Rightarrow> Context" where
  "Next c = c\<lparr>next_called := True\<rparr>"

definition StatusUnauthorized :: nat where "StatusUnauthorized = 401"
definition StatusForbidden :: nat where "StatusForbidden = 403"
definition StatusInternalServerError :: nat where "StatusInternalServerError = 500"

section \<open>Cookie service (package cookie)\<close>

record CookieService =
  accessTokenName :: string
  refreshTokenName :: string
  domain :: string
  secure :: bool
  httpOnly :: bool

definition NewCookieService :: CookieService where
  "NewCookieService =
     \<lparr>accessTokenName = ''access_token'', refreshTokenName = ''refresh_token'',
      domain = '''', secure = False, httpOnly = True\<rparr>"

definition SetAuthCookies :: "CookieService \<Rightarrow> Context \<Rightarrow> string \<Rightarrow> string \<Rightarrow> Context" where
  "SetAuthCookies s c accessToken refreshToken =
     (let c1 = SetCookie c (accessTokenName s) accessToken (15 * 60) ''/''
                 (domain s) (secure s) (httpOnly s)
      in SetCookie c1 (refreshTokenName s) refreshToken (7 * 24 * 60 * 60) ''/''
           (domain s) (secure s) (httpOnly s))"

definition GetAccessToken :: "CookieService \<Rightarrow> Context \<Rightarrow> error + string" where
  "GetAccessToken s c =
     (case Cookie c (accessTokenName s) of
        Inl _ \<Rightarrow> Inl (Errorf ''access token not found in cookie'')
      | Inr token \<Rightarrow> Inr token)"

definition GetRefreshToken :: "CookieService \<Rightarrow> Context \<Rightarrow> error + string" where
  "GetRefreshToken s c =
     (case Cookie c (refreshTokenName s) of
        Inl _ \<Rightarrow> Inl (Errorf ''refresh token not found in cookie'')
      | Inr token \<Rightarrow> Inr token)"

definition GetTokenFromRequest :: "CookieService \<Rightarrow> Context \<Rightarrow> error + string" where
  "GetTokenFromRequest s c =
     (case GetAccessToken s c of
        Inr token \<Rightarrow> Inr token
      | Inl _ \<Rightarrow>
          (let authHeader = GetHeader_Authorization c in
           if authHeader = '''' then Inl (Errorf ''no token found in request'')
           else if length authHeader > 7 \<and> take 7 authHeader = ''Bearer ''
             then Inr (drop 7 authHeader)
           else Inl (Errorf ''invalid authorization header format'')))"

section \<open>Token extraction and role gates (package middleware)\<close>

text \<open>
  \<open>strings.SplitN(s, " ", 2)\<close>: the text before the first space and the text after
  it, or \<open>s\<close> alone when it has no space.
\<close>

definition SplitN_space_2 :: "string \<Rightarrow> string list" where
  "SplitN_space_2 s =
     (if CHR '' '' \<in> set s
      then [takeWhile (\<lambda>ch. ch \<noteq> CHR '' '') s, tl (dropWhile (\<lambda>ch. ch \<noteq> CHR '' '') s)]
      else [s])"

definition extractToken :: "CookieService \<Rightarrow> Context \<Rightarrow> error + string" where
  "extractToken cs c =
     (let authHeader = GetHeader_Authorization c;
          parts = SplitN_space_2 authHeader
      in if authHeader \<noteq> '''' \<and> length parts = 2 \<and> parts ! 0 = ''Bearer''
         then Inr (parts ! 1)
         else (case GetTokenFromRequest cs c of
                 Inr token \<Rightarrow>
                   if token \<noteq> '''' then Inr token else Inl (Errorf ''no token found'')
               | Inl _ \<Rightarrow> Inl (Errorf ''no token found'')))"

definition RequireRole :: "Role \<Rightarrow> Context \<Rightarrow> Context" where
  "RequireRole role c =
     (case Keys c ''role'' of
        None \<Rightarrow>
          Abort (JSON c StatusUnauthorized
            [(''success'', JBool False), (''error'', JString ''Unauthorized''),
             (''message'', JString ''User role not found'')])
      | Some (AnyString userRoleStr) \<Rightarrow>
          if userRoleStr \<noteq> role
          then Abort (JSON c StatusForbidden
                 [(''success'', JBool False), (''error'', JString ''Forbidden''),
                  (''message'', JString (''Required role: '' @ role))])
          else Next c
      | Some _ \<Rightarrow>
          Abort (JSON c StatusInternalServerError
            [(''success'', JBool False), (''error'', JString ''Internal Server Error''),
             (''message'', JString ''Invalid user role format'')]))"

definition RequireAdmin :: "Context \<Rightarrow> Context" where
  "RequireAdmin = RequireRole RoleAdmin"

definition RequireManagerOrHigher :: "Context \<Rightarrow> Context" where
  "RequireManagerOrHigher c =
     (case Keys c ''role'' of
        None \<Rightarrow>
          Abort (JSON c StatusUnauthorized
            [(''success'', JBool False), (''error'', JString ''Unauthorized''),
             (''message'', JString ''User role not found'')])
      | Some (AnyString userRoleStr) \<Rightarrow>
          if userRoleStr \<noteq> RoleAdmin \<and> userRoleStr \<noteq> RoleManager
          then Abort (JSON c StatusForbidden
                 [(''success'', JBool False), (''error'', JString ''Forbidden''),
                  (''message'', JString ''Required role: manager or admin'')])
          else Next c
      | Some _ \<Rightarrow>
          Abort (JSON c StatusInternalServerError
            [(''success'', JBool False), (''error'', JString ''Internal Server Error''),
             (''message'', JString ''Invalid user role format'')]))"

section \<open>Configuration (package config)\<close>

record JWTConfig =
  SecretKey :: string
  RefreshSecret :: string
  AccessExpiry :: int
  RefreshExpiry :: int

section \<open>The imported libraries\<close>

text \<open>
  The token library (golang-jwt), the password hashing library (bcrypt) and the database
  driver (pgx) are not part of the repository. Their calls are parameters of the model:
  \<^item> \<open>jwt_SignedString claims key\<close> is \<open>jwt.NewWithClaims(jwt.SigningMethodHS256,
    claims).SignedString(key)\<close>;
  \<^item> \<open>jwt_Parse tokenString keyFunc now\<close> is \<open>jwt.Parse(tokenString, keyFunc)\<close> run at
    the instant \<open>now\<close>;
  \<^item> \<open>bcrypt_GenerateFromPassword password\<close> hashes at the default cost;
  \<^item> \<open>bcrypt_CompareHashAndPassword hash password\<close> is \<open>None\<close> for a \<open>nil\<close> error;
  \<^item> \<open>pgx_insert_error user\<close> is the error, if any, with which the driver's call that
    runs the \<open>INSERT\<close> of \<open>Create\<close> fails for a reason the table definition does not
    decide (a lost connection, a cancelled request, a value that the server's text type
    refuses).
\<close>

datatype SigningMethod = SigningMethodHMAC | SigningMethodOther

text \<open>
  \<open>jwt.MapClaims\<close>: the decoded payload. A JSON number is a \<open>float64\<close> in Go; the
  numbers this service writes into a token are whole (identifiers and seconds), and the
  model keeps whole numbers only.
\<close>

type_synonym MapClaims = "string \<Rightarrow> json option"

record jwt_Token =
  token_Method :: SigningMethod
  token_alg :: string
  token_Claims :: MapClaims
  token_Valid :: bool

text \<open>The \<open>Claims\<close> struct of package jwt, with the registered claims it embeds.\<close>

record Claims =
  Issuer :: string
  Subject :: string
  Audience :: "string list"
  ExpiresAt :: int
  NotBefore :: int
  IssuedAt :: int
  Claims_UserID :: nat
  Claims_Username :: string
  Claims_Role :: string
  Claims_Type :: string

record extern =
  jwt_SignedString :: "Claims \<Rightarrow> string \<Rightarrow> error + string"
  jwt_Parse :: "string \<Rightarrow> (jwt_Token \<Rightarrow> error + string) \<Rightarrow> int \<Rightarrow> error + jwt_Token"
  bcrypt_GenerateFromPassword :: "string \<Rightarrow> error + string"
  bcrypt_CompareHashAndPassword :: "string \<Rightarrow> string \<Rightarrow> error option"
  pgx_insert_error :: "User \<Rightarrow> error option"

text \<open>The payload a \<open>Claims\<close> value is marshalled to, by the struct's JSON tags.\<close>

definition MapClaims_of :: "Claims \<Rightarrow> MapClaims" where
  "MapClaims_of cl =
     [''iss'' \<mapsto> JString (Issuer cl),
      ''sub'' \<mapsto> JString (Subject cl),
      ''aud'' \<mapsto> JArray (map JString (Audience cl)),
      ''exp'' \<mapsto> JNumber (ExpiresAt cl),
      ''nbf'' \<mapsto> JNumber (NotBefore cl),
      ''iat'' \<mapsto> JNumber (IssuedAt cl),
      ''user_id'' \<mapsto> JNumber (int (Claims_UserID cl)),
      ''username'' \<mapsto> JString (Claims_Username cl),
      ''role'' \<mapsto> JString (Claims_Role cl),
      ''type'' \<mapsto> JString (Claims_Type cl)]"

section \<open>Methods of the user entity\<close>

definition SetPassword :: "extern \<Rightarrow> User \<Rightarrow> string \<Rightarrow> error + User" where
  "SetPassword X u password =
     (case bcrypt_GenerateFromPassword X password of
        Inl err \<Rightarrow> Inl err
      | Inr hashedPassword \<Rightarrow> Inr (u\<lparr>Password := hashedPassword\<rparr>))"

definition VerifyPassword :: "extern \<Rightarrow> User \<Rightarrow> string \<Rightarrow> bool" where
  "VerifyPassword X u password = (bcrypt_CompareHashAndPassword X (Password u) password = None)"

definition UpdateLastLogin_entity :: "User \<Rightarrow> int \<Rightarrow> User" where
  "UpdateLastLogin_entity u now = u\<lparr>LastLogin := Some now\<rparr>"

definition Validate :: "User \<Rightarrow> error option" where
  "Validate u =
     (if Username u = '''' then Some ErrInvalidUsername
      else if length (Password u) < 8 then Some ErrPasswordTooShort
      else None)"

section \<open>Token service (package jwt)\<close>

text \<open>\<open>fmt.Sprintf("%d", n)\<close> for an unsigned \<open>n\<close>.\<close>

fun Sprintf_d :: "nat \<Rightarrow> string" where
  "Sprintf_d n =
     (if n < 10 then [char_of (48 + n)]
      else Sprintf_d (n div 10) @ [char_of (48 + n mod 10)])"

declare Sprintf_d.simps [simp del]

text \<open>
  The claims built by \<open>GenerateAccessToken\<close> and \<open>GenerateRefreshToken\<close>; the expiry
  is \<open>now.Add(time.Duration(minutes) * time.Minute)\<close>, in seconds.
\<close>

definition accessClaims :: "JWTConfig \<Rightarrow> int \<Rightarrow> User \<Rightarrow> Claims" where
  "accessClaims cfg now user =
     \<lparr>Issuer = ''github.com/ontair/admin-panel'',
      Subject = Sprintf_d (ID user),
      Audience = [''admin-panel-users''],
      ExpiresAt = now + AccessExpiry cfg * 60,
      NotBefore = now,
      IssuedAt = now,
      Claims_UserID = ID user,
      Claims_Username = Username user,
      Claims_Role = Role user,
      Claims_Type = ''access''\<rparr>"

definition refreshClaims :: "JWTConfig \<Rightarrow> int \<Rightarrow> User \<Rightarrow> Claims" where
  "refreshClaims cfg now user =
     \<lparr>Issuer = ''github.com/ontair/admin-panel'',
      Subject = Sprintf_d (ID user),
      Audience = [''admin-panel-users''],
      ExpiresAt = now + RefreshExpiry cfg * 60,
      NotBefore = now,
      IssuedAt = now,
      Claims_UserID = ID user,
      Claims_Username = Username user,
      Claims_Role = Role user,
      Claims_Type = ''refresh''\<rparr>"

definition GenerateAccessToken :: "extern \<Rightarrow> JWTConfig \<Rightarrow> int \<Rightarrow> User \<Rightarrow> error + string" where
  "GenerateAccessToken X cfg now user =
     jwt_SignedString X (accessClaims cfg now user) (SecretKey cfg)"

definition GenerateRefreshToken :: "extern \<Rightarrow> JWTConfig \<Rightarrow> int \<Rightarrow> User \<Rightarrow> error + string" where
  "GenerateRefreshToken X cfg now user =
     jwt_SignedString X (refreshClaims cfg now user) (RefreshSecret cfg)"

text \<open>The key function handed to \<open>jwt.Parse\<close>: it refuses every non-HMAC method.\<close>

definition keyFunc :: "string \<Rightarrow> jwt_Token \<Rightarrow> error + string" where
  "keyFunc secret token =
     (if token_Method token \<noteq> SigningMethodHMAC
      then Inl (Errorf (''unexpected signing method: '' @ token_alg token))
      else Inr secret)"

definition parseToken :: "extern \<Rightarrow> string \<Rightarrow> string \<Rightarrow> string \<Rightarrow> int \<Rightarrow> error + jwt_Token" where
  "parseToken X tokenString secret expectedType now =
     (case jwt_Parse X tokenString (keyFunc secret) now of
        Inl err \<Rightarrow> Inl err
      | Inr token \<Rightarrow>
          if token_Valid token then
            (case token_Claims token ''type'' of
               Some (JString tokenType) \<Rightarrow>
                 if tokenType \<noteq> expectedType
                 then Inl (Errorf (''invalid token type: expected '' @ expectedType @
                                   '', got '' @ tokenType))
                 else Inr token
             | _ \<Rightarrow> Inl (Errorf (''invalid token type: expected '' @ expectedType @ '', got '')))
          else Inl (Errorf ''invalid token''))"

definition ParseAccessToken :: "extern \<Rightarrow> JWTConfig \<Rightarrow> string \<Rightarrow> int \<Rightarrow> error + jwt_Token" where
  "ParseAccessToken X cfg tokenString now = parseToken X tokenString (SecretKey cfg) ''access'' now"

definition ParseRefreshToken :: "extern \<Rightarrow> JWTConfig \<Rightarrow> string \<Rightarrow> int \<Rightarrow> error + jwt_Token" where
  "ParseRefreshToken X cfg tokenString now =
     parseToken X tokenString (RefreshSecret cfg) ''refresh'' now"

definition ExtractUserFromToken :: "jwt_Token \<Rightarrow> error + UserInfo" where
  "ExtractUserFromToken token =
     (if \<not> token_Valid token then Inl (Errorf ''invalid token claims'')
      else case token_Claims token ''user_id'' of
        Some (JNumber userIDFloat) \<Rightarrow>
          (case token_Claims token ''username'' of
             Some (JString username) \<Rightarrow>
               (case token_Claims token ''role'' of
                  Some (JString role) \<Rightarrow>
                    Inr \<lparr>UserInfo_UserID = nat userIDFloat, UserInfo_Username = username,
                         UserInfo_Role = role\<rparr>
                | _ \<Rightarrow> Inl (Errorf ''invalid role in token''))
           | _ \<Rightarrow> Inl (Errorf ''invalid username in token''))
      | _ \<Rightarrow> Inl (Errorf ''invalid user_id in token''))"

definition GetAccessTokenExpiry :: "JWTConfig \<Rightarrow> int" where
  "GetAccessTokenExpiry cfg = AccessExpiry cfg"

section \<open>User repository (package database)\<close>

text \<open>
  The \<open>users\<close> table is the list of its rows, with the state of the sequence behind the
  \<open>SERIAL\<close> primary key. The database's \<open>NOW()\<close> is the instant \<open>now\<close> of the call.
  The lookups and updates are those of a server that answers; the \<open>INSERT\<close> of
  \<open>Create\<close> is checked against every column definition of \<open>createUsersTable\<close> and can
  also fail in the driver.
\<close>

record Database =
  users :: "User list"
  users_id_seq :: nat

definition GetByID :: "Database \<Rightarrow> nat \<Rightarrow> error + User" where
  "GetByID db uid =
     (case find (\<lambda>r. ID r = uid) (users db) of
        None \<Rightarrow> Inl ErrUserNotFound
      | Some user \<Rightarrow> Inr user)"

definition GetByUsername :: "Database \<Rightarrow> string \<Rightarrow> error + User" where
  "GetByUsername db username =
     (case find (\<lambda>r. Username r = username) (users db) of
        None \<Rightarrow> Inl ErrUserNotFound
      | Some user \<Rightarrow> Inr user)"

text \<open>
  The columns of \<open>createUsersTable\<close> are \<open>VARCHAR(n)\<close>, which counts characters, while a
  Go string is its UTF-8 bytes. A byte of the form \<open>10xxxxxx\<close> continues a character;
  every other byte starts one.
\<close>

definition utf8_continuation :: "char \<Rightarrow> bool" where
  "utf8_continuation ch \<longleftrightarrow> 128 \<le> (of_char ch :: nat) \<and> (of_char ch :: nat) < 192"

definition char_length :: "string \<Rightarrow> nat" where
  "char_length s = length (filter (\<lambda>ch. \<not> utf8_continuation ch) s)"

text \<open>The number of bytes taken by the first \<open>n\<close> characters of a string.\<close>

fun mbcharclip :: "nat \<Rightarrow> string \<Rightarrow> nat" where
  "mbcharclip n [] = 0"
| "mbcharclip n (ch # s) =
     (if utf8_continuation ch then Suc (mbcharclip n s)
      else case n of 0 \<Rightarrow> 0 | Suc m \<Rightarrow> Suc (mbcharclip m s))"

text \<open>
  Storing a string in a \<open>VARCHAR(n)\<close> column: a value of more than \<open>n\<close> characters
  is refused, unless all that exceeds is spaces, which are cut off.
\<close>

definition varchar :: "nat \<Rightarrow> string \<Rightarrow> error + string" where
  "varchar n s =
     (let clip = mbcharclip n s
      in if list_all (\<lambda>ch. ch = CHR '' '') (drop clip s) then Inr (take clip s)
         else Inl (Errorf (''value too long for type character varying('' @ Sprintf_d n @ '')'')))"

text \<open>\<open>fmt.Errorf("failed to create user: %w", err)\<close>.\<close>

definition failed_to_create_user :: "error \<Rightarrow> error" where
  "failed_to_create_user err = Errorf (''failed to create user: '' @ Error err)"

text \<open>
  \<open>Create\<close> inserts every column but \<open>last_login\<close> and writes the generated
  identifier and timestamps back into the caller's user value. The insert fails when
  the driver fails, when a value does not fit its column (\<open>username\<close>, \<open>first_name\<close>
  and \<open>last_name\<close> \<open>VARCHAR(50)\<close>, \<open>password\<close> \<open>VARCHAR(255)\<close>, \<open>role\<close>
  \<open>VARCHAR(20)\<close>), when the role is none of the four that the \<open>CHECK\<close> admits, and
  when the username is already in the table (\<open>UNIQUE\<close>). Every such error is returned
  wrapped, and leaves the rows as they were; a sequence value that a refused insert
  may have consumed is not tracked.
\<close>

definition Create :: "extern \<Rightarrow> Database \<Rightarrow> User \<Rightarrow> int \<Rightarrow> error + (Database \<times> User)" where
  "Create X db user now =
     (case pgx_insert_error X user of
        Some err \<Rightarrow> Inl (failed_to_create_user err)
      | None \<Rightarrow>
     (case varchar 50 (Username user) of
        Inl err \<Rightarrow> Inl (failed_to_create_user err)
      | Inr username \<Rightarrow>
     (case varchar 255 (Password user) of
        Inl err \<Rightarrow> Inl (failed_to_create_user err)
      | Inr password \<Rightarrow>
     (case varchar 50 (FirstName user) of
        Inl err \<Rightarrow> Inl (failed_to_create_user err)
      | Inr first_name \<Rightarrow>
     (case varchar 50 (LastName user) of
        Inl err \<Rightarrow> Inl (failed_to_create_user err)
      | Inr last_name \<Rightarrow>
     (case varchar 20 (Role user) of
        Inl err \<Rightarrow> Inl (failed_to_create_user err)
      | Inr role \<Rightarrow>
          if \<not> (role = RoleAdmin \<or> role = RoleManager \<or> role = RoleUser \<or> role = RoleGuest)
          then Inl (failed_to_create_user
                 (Errorf ''new row for relation users violates check constraint users_role_check''))
          else case find (\<lambda>r. Username r = username) (users db) of
            Some _ \<Rightarrow>
              Inl (failed_to_create_user
                (Errorf ''duplicate key value violates unique constraint users_username_key''))
          | None \<Rightarrow>
              (let newID = Suc (users_id_seq db);
                   row = \<lparr>ID = newID, Username = username, Password = password,
                          FirstName = first_name, LastName = last_name, Role = role,
                          IsActive = IsActive user, LastLogin = None,
                          CreatedAt = now, UpdatedAt = now\<rparr>
               in Inr (db\<lparr>users := users db @ [row], users_id_seq := newID\<rparr>,
                       user\<lparr>ID := newID, CreatedAt := now, UpdatedAt := now\<rparr>))))))))"

definition Update :: "Database \<Rightarrow> User \<Rightarrow> int \<Rightarrow> error + Database" where
  "Update db user now =
     (case find (\<lambda>r. ID r \<noteq> ID user \<and> Username r = Username user) (users db) of
        Some _ \<Rightarrow> Inl (Errorf ''failed to update user: duplicate key value violates unique constraint'')
      | None \<Rightarrow>
          (case find (\<lambda>r. ID r = ID user) (users db) of
             None \<Rightarrow> Inl ErrUserNotFound
           | Some _ \<Rightarrow>
               Inr (db\<lparr>users :=
                      map (\<lambda>r. if ID r = ID user
                                then r\<lparr>Username := Username user, Password := Password user,
                                       FirstName := FirstName user, LastName := LastName user,
                                       Role := Role user, IsActive := IsActive user,
                                       LastLogin := LastLogin user, UpdatedAt := now\<rparr>
                                else r) (users db)\<rparr>)))"

definition UpdateLastLogin :: "Database \<Rightarrow> nat \<Rightarrow> int \<Rightarrow> error + Database" where
  "UpdateLastLogin db userID now =
     (case find (\<lambda>r. ID r = userID) (users db) of
        None \<Rightarrow> Inl ErrUserNotFound
      | Some _ \<Rightarrow>
          Inr (db\<lparr>users :=
                 map (\<lambda>r. if ID r = userID then r\<lparr>LastLogin := Some now\<rparr> else r) (users db)\<rparr>))"

section \<open>Activation and deactivation (package services, user service)\<close>

definition toggleUserActiveStatus :: "Database \<Rightarrow> nat \<Rightarrow> bool \<Rightarrow> int \<Rightarrow> error + Database" where
  "toggleUserActiveStatus db uid isActive now =
     (case GetByID db uid of
        Inl _ \<Rightarrow> Inl ErrUserNotFound
      | Inr user \<Rightarrow> Update db (user\<lparr>IsActive := isActive\<rparr>) now)"

definition ActivateUser :: "Database \<Rightarrow> nat \<Rightarrow> int \<Rightarrow> error + Database" where
  "ActivateUser db uid now = toggleUserActiveStatus db uid True now"

definition DeactivateUser :: "Database \<Rightarrow> nat \<Rightarrow> int \<Rightarrow> error + Database" where
  "DeactivateUser db uid now = toggleUserActiveStatus db uid False now"

section \<open>Authentication service (package services, auth service)\<close>

record LoginRequest =
  LoginRequest_Username :: string
  LoginRequest_Password :: string

record LoginResponse =
  LoginResponse_AccessToken :: string
  LoginResponse_RefreshToken :: string
  LoginResponse_User :: User
  ExpiresIn :: int

record RegisterRequest =
  RegisterRequest_Username :: string
  RegisterRequest_Password :: string
  RegisterRequest_FirstName :: string
  RegisterRequest_LastName :: string
  RegisterRequest_Role :: Role

record RefreshTokenRequest =
  RefreshTokenRequest_RefreshToken :: string

definition getUserByUsername :: "Database \<Rightarrow> string \<Rightarrow> error + User" where
  "getUserByUsername db username =
     (case GetByUsername db username of
        Inl _ \<Rightarrow> Inl ErrUserNotFound
      | Inr user \<Rightarrow> Inr user)"

definition validateRegistrationRequest :: "RegisterRequest \<Rightarrow> error option" where
  "validateRegistrationRequest req =
     (if RegisterRequest_Username req = '''' \<or> length (RegisterRequest_Username req) < 3
        then Some ErrInvalidUsername
      else if RegisterRequest_Password req = '''' \<or> length (RegisterRequest_Password req) < 8
        then Some ErrPasswordTooShort
      else None)"

definition getDefaultRole :: "Role \<Rightarrow> Role" where
  "getDefaultRole role =
     (if role = '''' then RoleUser
      else if role = RoleAdmin \<or> role = RoleManager \<or> role = RoleUser \<or> role = RoleGuest
        then role
      else RoleUser)"

text \<open>
  \<open>Login\<close> returns the response together with the database, whose only change is the
  recorded last login; a failure to record it is dropped, as in the source.
\<close>

definition Login ::
  "extern \<Rightarrow> JWTConfig \<Rightarrow> Database \<Rightarrow> int \<Rightarrow> LoginRequest \<Rightarrow> error + (Database \<times> LoginResponse)" where
  "Login X cfg db now req =
     (if LoginRequest_Username req = '''' \<or> LoginRequest_Password req = ''''
        then Inl ErrInvalidCredentials
      else case getUserByUsername db (LoginRequest_Username req) of
        Inl _ \<Rightarrow> Inl ErrInvalidCredentials
      | Inr user \<Rightarrow>
          if \<not> IsActive user then Inl ErrUserDeactivated
          else if \<not> VerifyPassword X user (LoginRequest_Password req)
            then Inl ErrInvalidCredentials
          else case GenerateAccessToken X cfg now user of
            Inl err \<Rightarrow> Inl err
          | Inr accessToken \<Rightarrow>
              (case GenerateRefreshToken X cfg now user of
                 Inl err \<Rightarrow> Inl err
               | Inr refreshToken \<Rightarrow>
                   (let user' = UpdateLastLogin_entity user now;
                        db' = (case UpdateLastLogin db (ID user') now of
                                 Inl _ \<Rightarrow> db
                               | Inr d \<Rightarrow> d)
                    in Inr (db',
                         \<lparr>LoginResponse_AccessToken = accessToken,
                          LoginResponse_RefreshToken = refreshToken,
                          LoginResponse_User = user',
                          ExpiresIn = 15\<rparr>))))"

text \<open>The zero \<open>time.Time\<close> (1 January of year 1), in seconds.\<close>

definition zeroTime :: int where
  "zeroTime = - 62135596800"

definition Register ::
  "extern \<Rightarrow> Database \<Rightarrow> int \<Rightarrow> RegisterRequest \<Rightarrow> error + (Database \<times> User)" where
  "Register X db now req =
     (case validateRegistrationRequest req of
        Some err \<Rightarrow> Inl err
      | None \<Rightarrow>
          (case GetByUsername db (RegisterRequest_Username req) of
             Inr _ \<Rightarrow> Inl ErrUserAlreadyExists
           | Inl _ \<Rightarrow>
               (let user = \<lparr>ID = 0, Username = RegisterRequest_Username req, Password = '''',
                            FirstName = RegisterRequest_FirstName req,
                            LastName = RegisterRequest_LastName req,
                            Role = getDefaultRole (RegisterRequest_Role req),
                            IsActive = True, LastLogin = None,
                            CreatedAt = zeroTime, UpdatedAt = zeroTime\<rparr>
                in case SetPassword X user (RegisterRequest_Password req) of
                     Inl err \<Rightarrow> Inl err
                   | Inr user1 \<Rightarrow>
                       (case Validate user1 of
                          Some err \<Rightarrow> Inl err
                        | None \<Rightarrow>
                            (case Create X db user1 now of
                               Inl err \<Rightarrow> Inl err
                             | Inr (db', user2) \<Rightarrow> Inr (db', user2))))))"

definition RefreshToken ::
  "extern \<Rightarrow> JWTConfig \<Rightarrow> Database \<Rightarrow> int \<Rightarrow> RefreshTokenRequest \<Rightarrow> error + LoginResponse" where
  "RefreshToken X cfg db now req =
     (case ParseRefreshToken X cfg (RefreshTokenRequest_RefreshToken req) now of
        Inl _ \<Rightarrow> Inl ErrInvalidToken
      | Inr token \<Rightarrow>
          (case token_Claims token ''user_id'' of
             Some (JNumber userID) \<Rightarrow>
               (case GetByID db (nat userID) of
                  Inl _ \<Rightarrow> Inl ErrUserNotFound
                | Inr user \<Rightarrow>
                    if \<not> IsActive user then Inl ErrUserDeactivated
                    else case GenerateAccessToken X cfg now user of
                      Inl err \<Rightarrow> Inl err
                    | Inr accessToken \<Rightarrow>
                        (case GenerateRefreshToken X cfg now user of
                           Inl err \<Rightarrow> Inl err
                         | Inr newRefreshToken \<Rightarrow>
                             Inr \<lparr>LoginResponse_AccessToken = accessToken,
                                  LoginResponse_RefreshToken = newRefreshToken,
                                  LoginResponse_User = user,
                                  ExpiresIn = 15\<rparr>))
           | _ \<Rightarrow> Inl ErrInvalidToken))"

definition Logout :: "extern \<Rightarrow> JWTConfig \<Rightarrow> int \<Rightarrow> string \<Rightarrow> error option" where
  "Logout X cfg now token =
     (case ParseAccessToken X cfg token now of
        Inl _ \<Rightarrow> None
      | Inr parsedToken \<Rightarrow>
          (case token_Claims parsedToken ''user_id'' of
             Some (JNumber userID) \<Rightarrow> None
           | _ \<Rightarrow> None))"

definition ValidateToken ::
  "extern \<Rightarrow> JWTConfig \<Rightarrow> Database \<Rightarrow> int \<Rightarrow> string \<Rightarrow> error + User" where
  "ValidateToken X cfg db now token =
     (case ParseAccessToken X cfg token now of
        Inl _ \<Rightarrow> Inl ErrInvalidToken
      | Inr parsedToken \<Rightarrow>
          (case token_Claims parsedToken ''user_id'' of
             Some (JNumber userID) \<Rightarrow>
               (case GetByID db (nat userID) of
                  Inl _ \<Rightarrow> Inl ErrUserNotFound
                | Inr user \<Rightarrow>
                    if \<not> IsActive user then Inl ErrUserDeactivated else Inr user)
           | _ \<Rightarrow> Inl ErrInvalidToken))"

section \<open>Request authentication (package middleware)\<close>

text \<open>
  The middleware reaches the token service, the cookie service and the authentication
  service through its fields; here they are the functions above, applied to the
  libraries, the configuration, the store and the instant of the request. Calls of the
  logger change nothing that is returned and are left out. An \<open>error\<close> passed to
  \<open>isTokenExpiredError\<close> is never \<open>nil\<close>.
\<close>

definition isTokenExpiredError :: "error \<Rightarrow> bool" where
  "isTokenExpiredError err =
     (Error err = ''token is expired'' \<or> Error err = ''Token is expired'')"

text \<open>The four \<open>c.Set\<close> calls that attach an identity, in the order of the source.\<close>

definition set_identity :: "Context \<Rightarrow> UserInfo \<Rightarrow> Context" where
  "set_identity c userInfo =
     Set (Set (Set (Set c ''user_id'' (AnyUint (UserInfo_UserID userInfo)))
                 ''username'' (AnyString (UserInfo_Username userInfo)))
            ''role'' (AnyString (UserInfo_Role userInfo)))
       ''user_info'' (AnyUserInfo userInfo)"

text \<open>
  \<open>attemptTokenRefresh\<close> returns its verdict with the context as it leaves it: the
  cookies are set as soon as the refresh succeeded, before the new access token is
  parsed.
\<close>

definition attemptTokenRefresh ::
  "extern \<Rightarrow> JWTConfig \<Rightarrow> CookieService \<Rightarrow> Database \<Rightarrow> int \<Rightarrow> Context \<Rightarrow> bool \<times> Context" where
  "attemptTokenRefresh X cfg cs db now c =
     (case GetRefreshToken cs c of
        Inl _ \<Rightarrow> (False, c)
      | Inr refreshToken \<Rightarrow>
          (case RefreshToken X cfg db now \<lparr>RefreshTokenRequest_RefreshToken = refreshToken\<rparr> of
             Inl _ \<Rightarrow> (False, c)
           | Inr resp \<Rightarrow>
               (let c1 = SetAuthCookies cs c (LoginResponse_AccessToken resp)
                           (LoginResponse_RefreshToken resp)
                in case ParseAccessToken X cfg (LoginResponse_AccessToken resp) now of
                     Inl _ \<Rightarrow> (False, c1)
                   | Inr parsedToken \<Rightarrow>
                       (case ExtractUserFromToken parsedToken of
                          Inl _ \<Rightarrow> (False, c1)
                        | Inr userInfo \<Rightarrow> (True, set_identity c1 userInfo)))))"

definition RequireAuth ::
  "extern \<Rightarrow> JWTConfig \<Rightarrow> CookieService \<Rightarrow> Database \<Rightarrow> int \<Rightarrow> Context \<Rightarrow> Context" where
  "RequireAuth X cfg cs db now c =
     (case extractToken cs c of
        Inl _ \<Rightarrow>
          Abort (JSON c StatusUnauthorized
            [(''success'', JBool False), (''error'', JString ''Unauthorized''),
             (''message'', JString ''Invalid or missing token''),
             (''details'', JString ''Please provide a valid authentication token'')])
      | Inr token \<Rightarrow>
          (case ParseAccessToken X cfg token now of
             Inl err \<Rightarrow>
               (let (refreshed, c1) =
                      (if isTokenExpiredError err
                       then attemptTokenRefresh X cfg cs db now c
                       else (False, c))
                in if refreshed then Next c1
                   else Abort (JSON c1 StatusUnauthorized
                          [(''success'', JBool False), (''error'', JString ''Unauthorized''),
                           (''message'', JString ''Invalid token''),
                           (''details'', JString ''Token validation failed'')]))
           | Inr parsedToken \<Rightarrow>
               (case ExtractUserFromToken parsedToken of
                  Inl _ \<Rightarrow>
                    Abort (JSON c StatusUnauthorized
                      [(''success'', JBool False), (''error'', JString ''Unauthorized''),
                       (''message'', JString ''Invalid token data''),
                       (''details'', JString ''Token contains invalid user information'')])
                | Inr userInfo \<Rightarrow> Next (set_identity c userInfo))))"

section \<open>A concrete instance of the libraries\<close>

text \<open>
  To run the services on concrete requests the library parameters need values. The
  instance below knows finitely many token strings, each with the claims and the key it
  was signed with: signing looks the string up, parsing returns the claims of a known
  string when the key function accepts the method, the key is the signing key and the
  instant lies between not-before and expiry. The text of the expiry error is a
  parameter of the instance. Hashing prefixes the password; passwords of more than 72
  bytes are refused. The driver never fails.
\<close>

definition book_lib :: "(string \<times> Claims \<times> string) list \<Rightarrow> string \<Rightarrow> extern" where
  "book_lib book expiredText =
     \<lparr>jwt_SignedString =
        (\<lambda>cl key. case find (\<lambda>(tok, cl', key'). cl' = cl \<and> key' = key) book of
                     Some (tok, _, _) \<Rightarrow> Inr tok
                   | None \<Rightarrow> Inl (Errorf ''key is invalid'')),
      jwt_Parse =
        (\<lambda>tokenString kf now.
           case map_of book tokenString of
             None \<Rightarrow> Inl (Errorf ''token is malformed'')
           | Some (cl, key) \<Rightarrow>
               (let token = \<lparr>token_Method = SigningMethodHMAC, token_alg = ''HS256'',
                             token_Claims = MapClaims_of cl, token_Valid = False\<rparr>
                in case kf token of
                     Inl err \<Rightarrow> Inl (Errorf (''token is unverifiable: '' @ Error err))
                   | Inr k \<Rightarrow>
                       if k \<noteq> key then Inl (Errorf ''token signature is invalid'')
                       else if ExpiresAt cl \<le> now then Inl (Errorf expiredText)
                       else if now < NotBefore cl then Inl (Errorf ''token is not valid yet'')
                       else Inr (token\<lparr>token_Valid := True\<rparr>))),
      bcrypt_GenerateFromPassword =
        (\<lambda>password. if length password > 72
                     then Inl (Errorf ''bcrypt: password length exceeds 72 bytes'')
                     else Inr (''$2a$10$'' @ password)),
      bcrypt_CompareHashAndPassword =
        (\<lambda>hash password. if hash = ''$2a$10$'' @ password then None
                          else Some (Errorf ''crypto/bcrypt: hashedPassword is not the hash of the given password'')),
      pgx_insert_error = (\<lambda>user. None)\<rparr>"

text \<open>The defaults of \<open>setDefaults\<close>, and the administrator seeded by \<open>seedData\<close>.\<close>

definition default_cfg :: JWTConfig where
  "default_cfg =
     \<lparr>SecretKey = ''your-secret-key'', RefreshSecret = ''your-refresh-secret'',
      AccessExpiry = 15, RefreshExpiry = 1440\<rparr>"

definition seed_admin :: User where
  "seed_admin =
     \<lparr>ID = 1, Username = ''admin'', Password = ''$2a$10$admin123'',
      FirstName = ''Admin'', LastName = ''User'', Role = RoleAdmin, IsActive = True,
      LastLogin = None, CreatedAt = 0, UpdatedAt = 0\<rparr>"

definition seeded_db :: Database where
  "seeded_db = \<lparr>users = [seed_admin], users_id_seq = 1\<rparr>"

text \<open>
  Four token strings for a user under a configuration: the pair issued at instant 0
  and the pair issued at instant 1000.
\<close>

definition demo_book :: "JWTConfig \<Rightarrow> User \<Rightarrow> (string \<times> Claims \<times> string) list" where
  "demo_book cfg u =
     [(''A0'', accessClaims cfg 0 u, SecretKey cfg),
      (''R0'', refreshClaims cfg 0 u, RefreshSecret cfg),
      (''A1'', accessClaims cfg 1000 u, SecretKey cfg),
      (''R1'', refreshClaims cfg 1000 u, RefreshSecret cfg)]"

definition demo_lib :: extern where
  "demo_lib = book_lib (demo_book default_cfg seed_admin) ''token is expired''"

text \<open>A request without header, cookies, identity or response.\<close>

definition empty_ctx :: Context where
  "empty_ctx =
     \<lparr>hdr_Authorization = '''', req_cookies = Map.empty, Keys = Map.empty,
      set_cookies = [], response = None, aborted = False, next_called = False\<rparr>"

text \<open>
  A configuration whose access tokens live 30 minutes, with the library instance that
  knows the tokens issued under it.
\<close>

definition cfg30 :: JWTConfig where
  "cfg30 = default_cfg\<lparr>AccessExpiry := 30\<rparr>"

definition lib30 :: extern where
  "lib30 = book_lib (demo_book cfg30 seed_admin) ''token is expired''"

text \<open>
  The same tokens under a library that reports expiry behind a prefix, as
  \<open>token has invalid claims: token is expired\<close> (the form in which version 5 of
  golang-jwt wraps the errors of claim validation).
\<close>

definition wrapping_lib :: extern where
  "wrapping_lib =
     book_lib (demo_book default_cfg seed_admin) ''token has invalid claims: token is expired''"

text \<open>The seeded database after the administrator was deactivated at instant 500.\<close>

definition deactivated_db :: Database where
  "deactivated_db =
     \<lparr>users = [seed_admin\<lparr>IsActive := False, UpdatedAt := 500\<rparr>], users_id_seq = 1\<rparr>"

text \<open>
  A request whose cookies hold the access token issued at instant 0 (expired from
  instant 900 on under the default configuration) and the refresh token issued with it
  (valid until instant 86400).
\<close>

definition expired_request :: Context where
  "expired_request =
     empty_ctx\<lparr>req_cookies := [''access_token'' \<mapsto> ''A0'', ''refresh_token'' \<mapsto> ''R0'']\<rparr>"

section \<open>What is assumed of the token library\<close>

text \<open>
  A compact token carries its payload: whatever key function and instant \<open>jwt.Parse\<close>
  is called with, when it accepts a string that \<open>SignedString\<close> produced, the claims it
  returns are the claims that were signed. Nothing is assumed about which strings it
  accepts, about keys, or about the text of its errors.
\<close>

definition reads_back_signed :: "extern \<Rightarrow> bool" where
  "reads_back_signed X \<longleftrightarrow>
     (\<forall>cl key tok kf now t.
        jwt_SignedString X cl key = Inr tok \<longrightarrow> jwt_Parse X tok kf now = Inr t \<longrightarrow>
        token_Claims t = MapClaims_of cl)"

section \<open>Unfolding rules for concrete runs\<close>

lemmas demo_defs = demo_lib_def lib30_def cfg30_def book_lib_def demo_book_def default_cfg_def
  seed_admin_def seeded_db_def deactivated_db_def accessClaims_def refreshClaims_def
  MapClaims_of_def RoleAdmin_def RoleManager_def RoleUser_def RoleGuest_def

lemmas service_defs = Login_def RefreshToken_def ValidateToken_def Register_def
  getUserByUsername_def GetByUsername_def GetByID_def Create_def Update_def UpdateLastLogin_def
  VerifyPassword_def SetPassword_def Validate_def UpdateLastLogin_entity_def
  GenerateAccessToken_def GenerateRefreshToken_def ParseAccessToken_def ParseRefreshToken_def
  parseToken_def keyFunc_def validateRegistrationRequest_def getDefaultRole_def
  toggleUserActiveStatus_def DeactivateUser_def GetAccessTokenExpiry_def zeroTime_def
  varchar_def failed_to_create_user_def utf8_continuation_def char_length_def

lemmas ctx_defs = expired_request_def empty_ctx_def NewCookieService_def extractToken_def
  GetTokenFromRequest_def GetAccessToken_def GetRefreshToken_def Cookie_def
  GetHeader_Authorization_def SplitN_space_2_def SetAuthCookies_def SetCookie_def Set_def
  JSON_def Abort_def Next_def set_identity_def StatusUnauthorized_def StatusForbidden_def
  RequireAuth_def attemptTokenRefresh_def isTokenExpiredError_def ExtractUserFromToken_def

section \<open>Lists and the users table\<close>

lemma find_Some_mem: "find P xs = Some x \<Longrightarrow> P x \<and> x \<in> set xs"
  by (induction xs) (auto split: if_splits)

lemma find_map_preserved:
  assumes "\<And>r. P (f r) = P r"
  shows "find P (map f xs) = map_option f (find P xs)"
  using assms by (induction xs) auto

lemma find_Username_None_iff:
  "find (\<lambda>r. Username r = n) xs = None \<longleftrightarrow> n \<notin> Username ` set xs"
  by (induction xs) auto






text \<open>Deactivation leaves the user in the table, with the active flag cleared.\<close>

lemma DeactivateUser_inactive:
  assumes "DeactivateUser db uid now = Inr db'"
  shows "\<exists>u. GetByID db' uid = Inr u \<and> \<not> IsActive u"
proof -
  from assms obtain user where g: "GetByID db uid = Inr user"
    and u: "Update db (user\<lparr>IsActive := False\<rparr>) now = Inr db'"
    by (auto simp: DeactivateUser_def toggleUserActiveStatus_def split: sum.splits)
  from g have f: "find (\<lambda>r. ID r = uid) (users db) = Some user"
    by (auto simp: GetByID_def split: option.splits)
  then have i: "ID user = uid"
    using find_Some_mem by fastforce
  let ?f = "\<lambda>r. if ID r = uid
                then r\<lparr>Username := Username user, Password := Password user,
                       FirstName := FirstName user, LastName := LastName user,
                       Role := Role user, IsActive := False,
                       LastLogin := LastLogin user, UpdatedAt := now\<rparr>
                else r"
  from u i f have d: "users db' = map ?f (users db)"
    by (auto simp: Update_def split: option.splits)
  have "find (\<lambda>r. ID r = uid) (map ?f (users db)) =
          map_option ?f (find (\<lambda>r. ID r = uid) (users db))"
    by (rule find_map_preserved) simp
  with d f i have "find (\<lambda>r. ID r = uid) (users db') = Some (?f user)"
    by simp
  with i show ?thesis
    by (simp add: GetByID_def)
qed

lemma demo_deactivate: "DeactivateUser seeded_db 1 500 = Inr deactivated_db"
  by (simp add: demo_defs service_defs)

section \<open>The library instance reads back what it signed\<close>

lemma book_lib_signed_in_book:
  assumes "jwt_SignedString (book_lib book txt) cl key = Inr tok"
  shows "(tok, cl, key) \<in> set book"
proof -
  from assms obtain e where f: "find (\<lambda>(tok, cl', key'). cl' = cl \<and> key' = key) book = Some e"
    and "fst e = tok"
    by (auto simp: book_lib_def split: option.splits prod.splits)
  then show ?thesis
    using find_Some_mem [OF f] by auto
qed

lemma book_lib_reads_back_signed:
  assumes "distinct (map fst book)"
  shows "reads_back_signed (book_lib book txt)"
  unfolding reads_back_signed_def
proof (intro allI impI)
  fix cl key tok kf now t
  assume s: "jwt_SignedString (book_lib book txt) cl key = Inr tok"
    and p: "jwt_Parse (book_lib book txt) tok kf now = Inr t"
  from s have "(tok, cl, key) \<in> set book"
    by (rule book_lib_signed_in_book)
  with assms have "map_of book tok = Some (cl, key)"
    by simp
  with p show "token_Claims t = MapClaims_of cl"
    by (auto simp: book_lib_def Let_def split: sum.splits if_splits)
qed

lemma demo_lib_reads_back_signed: "reads_back_signed demo_lib"
  unfolding demo_lib_def by (rule book_lib_reads_back_signed) (simp add: demo_book_def)

section \<open>Token validation\<close>

lemma parseToken_type:
  "parseToken X tok secret expected now = Inr t \<Longrightarrow>
     token_Claims t ''type'' = Some (JString expected) \<and> token_Valid t \<and>
     jwt_Parse X tok (keyFunc secret) now = Inr t"
  by (auto simp: parseToken_def split: sum.splits if_splits option.splits json.splits)

lemma MapClaims_of_type: "MapClaims_of cl ''type'' = Some (JString (Claims_Type cl))"
  by (simp add: MapClaims_of_def)

lemma MapClaims_of_user_id: "MapClaims_of cl ''user_id'' = Some (JNumber (int (Claims_UserID cl)))"
  by (simp add: MapClaims_of_def)

lemma MapClaims_of_username: "MapClaims_of cl ''username'' = Some (JString (Claims_Username cl))"
  by (simp add: MapClaims_of_def)

lemma MapClaims_of_role: "MapClaims_of cl ''role'' = Some (JString (Claims_Role cl))"
  by (simp add: MapClaims_of_def)

text \<open>A signed token that validates carries the expected discriminator.\<close>

lemma parseToken_signed:
  assumes "reads_back_signed X" and "jwt_SignedString X cl key = Inr tok"
    and "parseToken X tok secret expected now = Inr t"
  shows "token_Claims t = MapClaims_of cl \<and> Claims_Type cl = expected \<and> token_Valid t"
proof -
  from assms(3) have a: "token_Claims t ''type'' = Some (JString expected)" and v: "token_Valid t"
    and p: "jwt_Parse X tok (keyFunc secret) now = Inr t"
    using parseToken_type by blast+
  from assms(1,2) p have c: "token_Claims t = MapClaims_of cl"
    unfolding reads_back_signed_def by blast
  with a have "Claims_Type cl = expected"
    by (simp add: MapClaims_of_type)
  with c v show ?thesis by simp
qed

lemma ExtractUserFromToken_signed:
  assumes "token_Claims t = MapClaims_of cl" and "token_Valid t"
  shows "ExtractUserFromToken t =
           Inr \<lparr>UserInfo_UserID = Claims_UserID cl, UserInfo_Username = Claims_Username cl,
                UserInfo_Role = Claims_Role cl\<rparr>"
  using assms
  by (simp add: ExtractUserFromToken_def MapClaims_of_user_id MapClaims_of_username
      MapClaims_of_role)

section \<open>The authentication service\<close>

lemma Login_ExpiresIn: "Login X cfg db now req = Inr (db', resp) \<Longrightarrow> ExpiresIn resp = 15"
  by (auto simp: Login_def Let_def split: if_splits sum.splits)

lemma RefreshToken_ExpiresIn: "RefreshToken X cfg db now req = Inr resp \<Longrightarrow> ExpiresIn resp = 15"
  by (auto simp: RefreshToken_def split: if_splits sum.splits option.splits json.splits)

lemma RefreshToken_Inr:
  assumes "RefreshToken X cfg db now req = Inr resp"
  shows "GenerateAccessToken X cfg now (LoginResponse_User resp) =
           Inr (LoginResponse_AccessToken resp)
       \<and> GenerateRefreshToken X cfg now (LoginResponse_User resp) =
           Inr (LoginResponse_RefreshToken resp)
       \<and> IsActive (LoginResponse_User resp)"
  using assms
  by (auto simp: RefreshToken_def split: sum.splits option.splits json.splits if_splits)

lemma RefreshToken_user_stored:
  assumes "RefreshToken X cfg db now req = Inr resp"
  shows "GetByID db (ID (LoginResponse_User resp)) = Inr (LoginResponse_User resp)"
  using assms find_Some_mem
  by (fastforce simp: RefreshToken_def GetByID_def
      split: sum.splits option.splits json.splits if_splits)

lemma demo_refresh:
  "RefreshToken demo_lib default_cfg seeded_db 1000 \<lparr>RefreshTokenRequest_RefreshToken = ''R0''\<rparr> =
     Inr \<lparr>LoginResponse_AccessToken = ''A1'', LoginResponse_RefreshToken = ''R1'',
          LoginResponse_User = seed_admin, ExpiresIn = 15\<rparr>"
  by (simp add: demo_defs service_defs)

section \<open>The middleware\<close>

lemma SplitN_space_2_Bearer: "SplitN_space_2 (''Bearer '' @ t) = [''Bearer'', t]"
  by (simp add: SplitN_space_2_def)

text \<open>The header test of \<open>extractToken\<close> holds exactly for headers that start with \<open>Bearer \<close>.\<close>

lemma Bearer_prefix_iff:
  "(length (SplitN_space_2 h) = 2 \<and> SplitN_space_2 h ! 0 = ''Bearer'') \<longleftrightarrow>
     take 7 h = ''Bearer ''"
proof
  assume "take 7 h = ''Bearer ''"
  then have "h = ''Bearer '' @ drop 7 h"
    by (metis append_take_drop_id)
  then have "SplitN_space_2 h = [''Bearer'', drop 7 h]"
    using SplitN_space_2_Bearer by metis
  then show "length (SplitN_space_2 h) = 2 \<and> SplitN_space_2 h ! 0 = ''Bearer''"
    by simp
next
  assume a: "length (SplitN_space_2 h) = 2 \<and> SplitN_space_2 h ! 0 = ''Bearer''"
  then have sp: "CHR '' '' \<in> set h"
    by (auto simp: SplitN_space_2_def split: if_splits)
  with a have tw: "takeWhile (\<lambda>ch. ch \<noteq> CHR '' '') h = ''Bearer''"
    by (simp add: SplitN_space_2_def)
  from sp have "dropWhile (\<lambda>ch. ch \<noteq> CHR '' '') h \<noteq> []"
    by simp
  then obtain x rest where dw: "dropWhile (\<lambda>ch. ch \<noteq> CHR '' '') h = x # rest"
    by (cases "dropWhile (\<lambda>ch. ch \<noteq> CHR '' '') h") auto
  then have "x = CHR '' ''"
    using hd_dropWhile [of "\<lambda>ch. ch \<noteq> CHR '' ''" h] by force
  with tw dw have "h = ''Bearer'' @ CHR '' '' # rest"
    by (metis takeWhile_dropWhile_id)
  then show "take 7 h = ''Bearer ''"
    by simp
qed

lemma SplitN_space_2_snd: "take 7 h = ''Bearer '' \<Longrightarrow> SplitN_space_2 h ! 1 = drop 7 h"
proof -
  assume "take 7 h = ''Bearer ''"
  then have "h = ''Bearer '' @ drop 7 h"
    by (metis append_take_drop_id)
  then have "SplitN_space_2 h = [''Bearer'', drop 7 h]"
    using SplitN_space_2_Bearer by metis
  then show ?thesis by simp
qed

text \<open>A token that validates attaches its identity, and the role gate reads it back.\<close>

lemma RequireAuth_valid_token:
  assumes "extractToken cs c = Inr tok" and "ParseAccessToken X cfg tok now = Inr parsed"
    and "ExtractUserFromToken parsed = Inr userInfo"
  shows "RequireAuth X cfg cs db now c = Next (set_identity c userInfo)"
  using assms by (simp add: RequireAuth_def)

lemma set_identity_role:
  "Keys (Next (set_identity c userInfo)) ''role'' = Some (AnyString (UserInfo_Role userInfo))"
  by (simp add: Next_def set_identity_def Set_def)

text \<open>
  Expiry is recognised by the whole text of the error. A validation error with any
  other text, such as one that wraps the expiry error behind a prefix, ends the request
  without a renewal attempt.
\<close>

lemma RequireAuth_unrecognised_error:
  assumes "extractToken cs c = Inr tok" and "ParseAccessToken X cfg tok now = Inl err"
    and "\<not> isTokenExpiredError err"
  shows "RequireAuth X cfg cs db now c =
           Abort (JSON c StatusUnauthorized
             [(''success'', JBool False), (''error'', JString ''Unauthorized''),
              (''message'', JString ''Invalid token''),
              (''details'', JString ''Token validation failed'')])"
  using assms by (simp add: RequireAuth_def)

lemma wrapped_expiry_not_recognised:
  "\<not> isTokenExpiredError (Errorf ''token has invalid claims: token is expired'')"
  by (simp add: isTokenExpiredError_def)

lemma RequireAuth_renewal:
  assumes "reads_back_signed X"
    and "extractToken cs c = Inr tok"
    and "ParseAccessToken X cfg tok now = Inl err" and "isTokenExpiredError err"
    and "GetRefreshToken cs c = Inr rt"
    and "RefreshToken X cfg db now \<lparr>RefreshTokenRequest_RefreshToken = rt\<rparr> = Inr resp"
    and "ParseAccessToken X cfg (LoginResponse_AccessToken resp) now = Inr newTok"
  shows "RequireAuth X cfg cs db now c =
           Next (set_identity
                   (SetAuthCookies cs c (LoginResponse_AccessToken resp)
                      (LoginResponse_RefreshToken resp))
                   \<lparr>UserInfo_UserID = ID (LoginResponse_User resp),
                    UserInfo_Username = Username (LoginResponse_User resp),
                    UserInfo_Role = Role (LoginResponse_User resp)\<rparr>)"
proof -
  let ?u = "LoginResponse_User resp"
  have g: "jwt_SignedString X (accessClaims cfg now ?u) (SecretKey cfg) =
             Inr (LoginResponse_AccessToken resp)"
    using RefreshToken_Inr [OF assms(6)] by (simp add: GenerateAccessToken_def)
  have "token_Claims newTok = MapClaims_of (accessClaims cfg now ?u) \<and> token_Valid newTok"
    using parseToken_signed [OF assms(1) g] assms(7) by (simp add: ParseAccessToken_def)
  then have "ExtractUserFromToken newTok =
           Inr \<lparr>UserInfo_UserID = ID ?u, UserInfo_Username = Username ?u, UserInfo_Role = Role ?u\<rparr>"
    using ExtractUserFromToken_signed [of newTok "accessClaims cfg now ?u"]
    by (simp add: accessClaims_def)
  with assms(2-7) show ?thesis
    by (simp add: RequireAuth_def attemptTokenRefresh_def Let_def)
qed

section \<open>Transparent renewal in RequireAuth\<close>

text \<open>
  Claim C1 says that a request with an expired access token and a still-valid refresh
  token is renewed and proceeds. The code does not do so. \<open>parseToken\<close> hands on the
  error of \<open>jwt.Parse\<close> unchanged, and version 5 of golang-jwt, which the token service
  imports, reports an expired token with the text
  \<open>token has invalid claims: token is expired\<close>. \<open>isTokenExpiredError\<close> compares the whole
  text with \<open>token is expired\<close>, so for every request, library, store and refresh cookie,
  an access token rejected with that text gets 401 Unauthorized at once: renewal is not
  attempted, no cookie is set, no identity is attached and \<open>Next\<close> is not called.
\<close>

theorem C1_wrapped_expiry_rejected:
  assumes "extractToken cs c = Inr tok"
    and "ParseAccessToken X cfg tok now = Inl err"
    and "Error err = ''token has invalid claims: token is expired''"
  shows "\<not> isTokenExpiredError err
       \<and> RequireAuth X cfg cs db now c =
           Abort (JSON c StatusUnauthorized
             [(''success'', JBool False), (''error'', JString ''Unauthorized''),
              (''message'', JString ''Invalid token''),
              (''details'', JString ''Token validation failed'')])"
proof -
  from assms(3) have n: "\<not> isTokenExpiredError err"
    by (simp add: isTokenExpiredError_def)
  with assms(1,2) show ?thesis
    by (simp add: RequireAuth_def)
qed

text \<open>
  The active administrator sends the expired access token \<open>A0\<close> with the refresh token
  \<open>R0\<close> at instant 1000. The refresh token validates and \<open>RefreshToken\<close>, had it been
  called, would have issued the pair \<open>A1\<close>, \<open>R1\<close>; the request is rejected with 401, no
  cookie is set and no identity is attached.
\<close>

theorem C1_wrapped_expiry_rejected_witness:
  "extractToken NewCookieService expired_request = Inr ''A0''
   \<and> ParseAccessToken wrapping_lib default_cfg ''A0'' 1000 =
       Inl (Errorf ''token has invalid claims: token is expired'')
   \<and> GetRefreshToken NewCookieService expired_request = Inr ''R0''
   \<and> RefreshToken wrapping_lib default_cfg seeded_db 1000
         \<lparr>RefreshTokenRequest_RefreshToken = ''R0''\<rparr> =
       Inr \<lparr>LoginResponse_AccessToken = ''A1'', LoginResponse_RefreshToken = ''R1'',
            LoginResponse_User = seed_admin, ExpiresIn = 15\<rparr>
   \<and> response (RequireAuth wrapping_lib default_cfg NewCookieService seeded_db 1000 expired_request) =
       Some (401, [(''success'', JBool False), (''error'', JString ''Unauthorized''),
                   (''message'', JString ''Invalid token''),
                   (''details'', JString ''Token validation failed'')])
   \<and> aborted (RequireAuth wrapping_lib default_cfg NewCookieService seeded_db 1000 expired_request)
   \<and> \<not> next_called
         (RequireAuth wrapping_lib default_cfg NewCookieService seeded_db 1000 expired_request)
   \<and> set_cookies (RequireAuth wrapping_lib default_cfg NewCookieService seeded_db 1000 expired_request)
       = []
   \<and> Keys (RequireAuth wrapping_lib default_cfg NewCookieService seeded_db 1000 expired_request)
       = Map.empty"
proof -
  have e: "extractToken NewCookieService expired_request = Inr ''A0''"
    by (simp add: ctx_defs)
  have p: "ParseAccessToken wrapping_lib default_cfg ''A0'' 1000 =
       Inl (Errorf ''token has invalid claims: token is expired'')"
    by (simp add: wrapping_lib_def demo_defs service_defs)
  have t: "Error (Errorf ''token has invalid claims: token is expired'') =
       ''token has invalid claims: token is expired''"
    by simp
  have r: "GetRefreshToken NewCookieService expired_request = Inr ''R0''"
    by (simp add: ctx_defs)
  have f: "RefreshToken wrapping_lib default_cfg seeded_db 1000
         \<lparr>RefreshTokenRequest_RefreshToken = ''R0''\<rparr> =
       Inr \<lparr>LoginResponse_AccessToken = ''A1'', LoginResponse_RefreshToken = ''R1'',
            LoginResponse_User = seed_admin, ExpiresIn = 15\<rparr>"
    by (simp add: wrapping_lib_def demo_defs service_defs)
  show ?thesis
    using e p r f C1_wrapped_expiry_rejected [OF e p t, of seeded_db]
    by (simp add: Abort_def JSON_def StatusUnauthorized_def expired_request_def empty_ctx_def)
qed

section \<open>Token type confusion\<close>

text \<open>
  Claim C2. With a token library that reads back what it signed, a token issued by
  \<open>GenerateAccessToken\<close> is rejected by \<open>ParseRefreshToken\<close> and a token issued by
  \<open>GenerateRefreshToken\<close> is rejected by \<open>ParseAccessToken\<close>, for every user, every
  issuing and validating configuration (equal secrets included) and every instant. For
  every token string at all, whatever \<open>ParseAccessToken\<close> accepts carries the
  discriminator \<open>access\<close> and whatever \<open>ParseRefreshToken\<close> accepts carries \<open>refresh\<close>.
\<close>

theorem C2_type_confusion:
  assumes "reads_back_signed X"
  shows "(GenerateAccessToken X cfg iat u = Inr tok \<longrightarrow>
            (\<exists>e. ParseRefreshToken X cfg' tok now = Inl e)) \<and>
         (GenerateRefreshToken X cfg iat u = Inr tok \<longrightarrow>
            (\<exists>e. ParseAccessToken X cfg' tok now = Inl e)) \<and>
         (ParseAccessToken X cfg' tok now = Inr t \<longrightarrow>
            token_Claims t ''type'' = Some (JString ''access'')) \<and>
         (ParseRefreshToken X cfg' tok now = Inr t \<longrightarrow>
            token_Claims t ''type'' = Some (JString ''refresh''))"
proof (intro conjI impI)
  assume g: "GenerateAccessToken X cfg iat u = Inr tok"
  show "\<exists>e. ParseRefreshToken X cfg' tok now = Inl e"
  proof (cases "ParseRefreshToken X cfg' tok now")
    case (Inl e)
    then show ?thesis by blast
  next
    case (Inr t')
    with assms g have "Claims_Type (accessClaims cfg iat u) = ''refresh''"
      using parseToken_signed [of X "accessClaims cfg iat u" "SecretKey cfg" tok]
      by (simp add: GenerateAccessToken_def ParseRefreshToken_def)
    then show ?thesis by (simp add: accessClaims_def)
  qed
next
  assume g: "GenerateRefreshToken X cfg iat u = Inr tok"
  show "\<exists>e. ParseAccessToken X cfg' tok now = Inl e"
  proof (cases "ParseAccessToken X cfg' tok now")
    case (Inl e)
    then show ?thesis by blast
  next
    case (Inr t')
    with assms g have "Claims_Type (refreshClaims cfg iat u) = ''access''"
      using parseToken_signed [of X "refreshClaims cfg iat u" "RefreshSecret cfg" tok]
      by (simp add: GenerateRefreshToken_def ParseAccessToken_def)
    then show ?thesis by (simp add: refreshClaims_def)
  qed
next
  assume "ParseAccessToken X cfg' tok now = Inr t"
  then show "token_Claims t ''type'' = Some (JString ''access'')"
    using parseToken_type by (simp add: ParseAccessToken_def)
next
  assume "ParseRefreshToken X cfg' tok now = Inr t"
  then show "token_Claims t ''type'' = Some (JString ''refresh'')"
    using parseToken_type by (simp add: ParseRefreshToken_def)
qed

text \<open>The pair issued to the seeded administrator at instant 1000, each presented as the other.\<close>

theorem C2_type_confusion_witness:
  "reads_back_signed demo_lib
   \<and> GenerateAccessToken demo_lib default_cfg 1000 seed_admin = Inr ''A1''
   \<and> (\<exists>e. ParseRefreshToken demo_lib default_cfg ''A1'' 1000 = Inl e)
   \<and> GenerateRefreshToken demo_lib default_cfg 1000 seed_admin = Inr ''R1''
   \<and> (\<exists>e. ParseAccessToken demo_lib default_cfg ''R1'' 1000 = Inl e)"
proof -
  have a: "GenerateAccessToken demo_lib default_cfg 1000 seed_admin = Inr ''A1''"
    by (simp add: demo_defs service_defs)
  have r: "GenerateRefreshToken demo_lib default_cfg 1000 seed_admin = Inr ''R1''"
    by (simp add: demo_defs service_defs)
  show ?thesis
    using a r demo_lib_reads_back_signed
      C2_type_confusion [OF demo_lib_reads_back_signed, where cfg = default_cfg and iat = 1000
        and u = seed_admin and tok = "''A1''" and cfg' = default_cfg and now = 1000]
      C2_type_confusion [OF demo_lib_reads_back_signed, where cfg = default_cfg and iat = 1000
        and u = seed_admin and tok = "''R1''" and cfg' = default_cfg and now = 1000]
    by simp
qed

section \<open>The reported lifetime\<close>

text \<open>
  Claim C3 at a configuration with a 30 minute access token. The configured lifetime,
  which \<open>GetAccessTokenExpiry\<close> returns and the issued token carries, is 30 minutes; a
  successful \<open>Login\<close> and a successful \<open>RefreshToken\<close> both report 15.
\<close>

theorem C3_expiresIn_hard_coded:
  "GetAccessTokenExpiry cfg30 = 30
   \<and> ExpiresAt (accessClaims cfg30 1000 seed_admin) - IssuedAt (accessClaims cfg30 1000 seed_admin)
       = 30 * 60
   \<and> map_sum id (\<lambda>(db', resp). ExpiresIn resp)
        (Login lib30 cfg30 seeded_db 1000
           \<lparr>LoginRequest_Username = ''admin'', LoginRequest_Password = ''admin123''\<rparr>) = Inr 15
   \<and> map_sum id ExpiresIn
        (RefreshToken lib30 cfg30 seeded_db 1000 \<lparr>RefreshTokenRequest_RefreshToken = ''R0''\<rparr>)
       = Inr 15"
  by (simp add: demo_defs service_defs Let_def)

section \<open>Token extraction\<close>

text \<open>
  Claim C4. \<open>extractToken\<close> returns the credential of the Authorization header when the
  header has the form \<open>Bearer \<close> followed by the credential, whatever the cookies hold.
  Only otherwise does it return the value of the access-token cookie, when that cookie
  is present and not empty; and when it is absent or empty the result is the error
  \<open>no token found\<close>.
\<close>

theorem C4_extractToken:
  "extractToken cs c =
     (if take 7 (hdr_Authorization c) = ''Bearer '' then Inr (drop 7 (hdr_Authorization c))
      else case req_cookies c (accessTokenName cs) of
             None \<Rightarrow> Inl (Errorf ''no token found'')
           | Some t \<Rightarrow> if t \<noteq> '''' then Inr t else Inl (Errorf ''no token found''))"
proof (cases "take 7 (hdr_Authorization c) = ''Bearer ''")
  case True
  then have "hdr_Authorization c \<noteq> ''''" by auto
  with True show ?thesis
    using Bearer_prefix_iff [of "hdr_Authorization c"] SplitN_space_2_snd [of "hdr_Authorization c"]
    by (simp add: extractToken_def GetHeader_Authorization_def Let_def)
next
  case False
  then show ?thesis
    using Bearer_prefix_iff [of "hdr_Authorization c"]
    by (auto simp: extractToken_def GetHeader_Authorization_def Let_def GetTokenFromRequest_def
        GetAccessToken_def Cookie_def split: option.splits sum.splits)
qed

text \<open>A bearer header beside a cookie, another header beside a cookie, and neither source.\<close>

theorem C4_extractToken_witness:
  "extractToken NewCookieService
     (empty_ctx\<lparr>hdr_Authorization := ''Bearer abc'',
                req_cookies := [''access_token'' \<mapsto> ''xyz'']\<rparr>) = Inr ''abc''
   \<and> extractToken NewCookieService
     (empty_ctx\<lparr>hdr_Authorization := ''Basic abc'',
                req_cookies := [''access_token'' \<mapsto> ''xyz'']\<rparr>) = Inr ''xyz''
   \<and> extractToken NewCookieService
     (empty_ctx\<lparr>hdr_Authorization := ''Basic abc''\<rparr>) = Inl (Errorf ''no token found'')"
  using C4_extractToken [of NewCookieService
      "empty_ctx\<lparr>hdr_Authorization := ''Bearer abc'', req_cookies := [''access_token'' \<mapsto> ''xyz'']\<rparr>"]
    C4_extractToken [of NewCookieService
      "empty_ctx\<lparr>hdr_Authorization := ''Basic abc'', req_cookies := [''access_token'' \<mapsto> ''xyz'']\<rparr>"]
    C4_extractToken [of NewCookieService "empty_ctx\<lparr>hdr_Authorization := ''Basic abc''\<rparr>"]
  by (simp add: NewCookieService_def empty_ctx_def)

section \<open>Login failures\<close>

text \<open>
  Claim C5. For a username that no row of the store carries, \<open>Login\<close> returns
  \<open>ErrInvalidCredentials\<close> whatever the password; and it returns the same error for an
  existing active user whose password does not verify.
\<close>

theorem C5_Login_unknown_username:
  "(LoginRequest_Username req \<notin> Username ` set (users db) \<longrightarrow>
      Login X cfg db now req = Inl ErrInvalidCredentials) \<and>
   (GetByUsername db (LoginRequest_Username req) = Inr u \<and> IsActive u \<and>
    \<not> VerifyPassword X u (LoginRequest_Password req) \<longrightarrow>
      Login X cfg db now req = Inl ErrInvalidCredentials)"
proof (intro conjI impI)
  assume "LoginRequest_Username req \<notin> Username ` set (users db)"
  then have "find (\<lambda>r. Username r = LoginRequest_Username req) (users db) = None"
    by (simp add: find_Username_None_iff)
  then show "Login X cfg db now req = Inl ErrInvalidCredentials"
    by (simp add: Login_def getUserByUsername_def GetByUsername_def)
next
  assume "GetByUsername db (LoginRequest_Username req) = Inr u \<and> IsActive u \<and>
    \<not> VerifyPassword X u (LoginRequest_Password req)"
  then show "Login X cfg db now req = Inl ErrInvalidCredentials"
    by (simp add: Login_def getUserByUsername_def)
qed

text \<open>An unknown username with the administrator's password, and the administrator with a wrong one.\<close>

theorem C5_Login_unknown_username_witness:
  "Login demo_lib default_cfg seeded_db 1000
     \<lparr>LoginRequest_Username = ''mallory'', LoginRequest_Password = ''admin123''\<rparr>
     = Inl ErrInvalidCredentials
   \<and> Login demo_lib default_cfg seeded_db 1000
     \<lparr>LoginRequest_Username = ''admin'', LoginRequest_Password = ''wrong-password''\<rparr>
     = Inl ErrInvalidCredentials"
proof -
  have a: "''mallory'' \<notin> Username ` set (users seeded_db)"
    by (simp add: seeded_db_def seed_admin_def)
  have b: "GetByUsername seeded_db ''admin'' = Inr seed_admin \<and> IsActive seed_admin \<and>
           \<not> VerifyPassword demo_lib seed_admin ''wrong-password''"
    by (simp add: demo_defs service_defs)
  show ?thesis
    using a b
      C5_Login_unknown_username [where req = "\<lparr>LoginRequest_Username = ''mallory'',
          LoginRequest_Password = ''admin123''\<rparr>"
        and db = seeded_db and X = demo_lib and cfg = default_cfg and now = 1000 and u = seed_admin]
      C5_Login_unknown_username [where req = "\<lparr>LoginRequest_Username = ''admin'',
          LoginRequest_Password = ''wrong-password''\<rparr>"
        and db = seeded_db and X = demo_lib and cfg = default_cfg and now = 1000 and u = seed_admin]
    by simp
qed

section \<open>Deactivated users\<close>

text \<open>
  Claim C6. Let a refresh token and an access token have been issued to a user, and let
  the store now hold that user with the active flag false. Whenever the refresh token
  still validates (valid signature, unexpired), \<open>RefreshToken\<close> fails with
  \<open>ErrUserDeactivated\<close>; whenever the access token still validates, \<open>ValidateToken\<close>
  fails with \<open>ErrUserDeactivated\<close>.
\<close>

theorem C6_deactivated_tokens_rejected:
  assumes "reads_back_signed X"
    and "GenerateRefreshToken X cfg0 iat u0 = Inr rt"
    and "GenerateAccessToken X cfg0 iat u0 = Inr at"
    and "ParseRefreshToken X cfg rt nowR = Inr parsedR"
    and "ParseAccessToken X cfg at nowA = Inr parsedA"
    and "GetByID db (ID u0) = Inr u" and "\<not> IsActive u"
  shows "RefreshToken X cfg db nowR \<lparr>RefreshTokenRequest_RefreshToken = rt\<rparr> = Inl ErrUserDeactivated
       \<and> ValidateToken X cfg db nowA at = Inl ErrUserDeactivated"
proof -
  have "token_Claims parsedR = MapClaims_of (refreshClaims cfg0 iat u0)"
    using assms(1,2,4) parseToken_signed [of X "refreshClaims cfg0 iat u0" "RefreshSecret cfg0" rt]
    by (simp add: GenerateRefreshToken_def ParseRefreshToken_def)
  then have r: "token_Claims parsedR ''user_id'' = Some (JNumber (int (ID u0)))"
    by (simp add: MapClaims_of_user_id refreshClaims_def)
  have "token_Claims parsedA = MapClaims_of (accessClaims cfg0 iat u0)"
    using assms(1,3,5) parseToken_signed [of X "accessClaims cfg0 iat u0" "SecretKey cfg0" at]
    by (simp add: GenerateAccessToken_def ParseAccessToken_def)
  then have a: "token_Claims parsedA ''user_id'' = Some (JNumber (int (ID u0)))"
    by (simp add: MapClaims_of_user_id accessClaims_def)
  from r assms(4,6,7)
  have "RefreshToken X cfg db nowR \<lparr>RefreshTokenRequest_RefreshToken = rt\<rparr> = Inl ErrUserDeactivated"
    by (simp add: RefreshToken_def)
  moreover from a assms(5,6,7) have "ValidateToken X cfg db nowA at = Inl ErrUserDeactivated"
    by (simp add: ValidateToken_def)
  ultimately show ?thesis by simp
qed

text \<open>
  The administrator's tokens of instant 1000, presented while they still validate, after
  \<open>DeactivateUser\<close> cleared the active flag.
\<close>

theorem C6_deactivated_tokens_rejected_witness:
  "DeactivateUser seeded_db (ID seed_admin) 500 = Inr deactivated_db
   \<and> map_sum id token_Valid (ParseRefreshToken demo_lib default_cfg ''R1'' 2000) = Inr True
   \<and> map_sum id token_Valid (ParseAccessToken demo_lib default_cfg ''A1'' 1500) = Inr True
   \<and> RefreshToken demo_lib default_cfg deactivated_db 2000
       \<lparr>RefreshTokenRequest_RefreshToken = ''R1''\<rparr> = Inl ErrUserDeactivated
   \<and> ValidateToken demo_lib default_cfg deactivated_db 1500 ''A1'' = Inl ErrUserDeactivated"
proof -
  have g: "GenerateRefreshToken demo_lib default_cfg 1000 seed_admin = Inr ''R1''"
    "GenerateAccessToken demo_lib default_cfg 1000 seed_admin = Inr ''A1''"
    by (simp_all add: demo_defs service_defs)
  obtain pr where pr: "ParseRefreshToken demo_lib default_cfg ''R1'' 2000 = Inr pr"
    by (simp add: demo_defs service_defs)
  obtain pa where pa: "ParseAccessToken demo_lib default_cfg ''A1'' 1500 = Inr pa"
    by (simp add: demo_defs service_defs)
  have d: "GetByID deactivated_db (ID seed_admin) =
             Inr (seed_admin\<lparr>IsActive := False, UpdatedAt := 500\<rparr>)"
    "\<not> IsActive (seed_admin\<lparr>IsActive := False, UpdatedAt := 500\<rparr>)"
    by (simp_all add: demo_defs service_defs)
  have v: "DeactivateUser seeded_db (ID seed_admin) 500 = Inr deactivated_db"
    "map_sum id token_Valid (ParseRefreshToken demo_lib default_cfg ''R1'' 2000) = Inr True"
    "map_sum id token_Valid (ParseAccessToken demo_lib default_cfg ''A1'' 1500) = Inr True"
    by (simp_all add: demo_defs service_defs)
  show ?thesis
    using v C6_deactivated_tokens_rejected [OF demo_lib_reads_back_signed g pr pa d]
    by simp
qed

section \<open>Failed renewal\<close>

text \<open>
  Claim C7. Let a request carry an access token that fails validation (by expiry or for
  any other reason), and let the refresh cookie be absent or hold a token that fails
  validation as a refresh token (expired or invalid). Then \<open>RequireAuth\<close> answers 401
  Unauthorized and aborts; it does not call \<open>Next\<close>, leaves the request-scoped keys as
  they were (no identity is attached) and sets no cookie.
\<close>

theorem C7_failed_renewal_rejected:
  assumes "extractToken cs c = Inr tok"
    and "ParseAccessToken X cfg tok now = Inl err"
    and "case GetRefreshToken cs c of
           Inl _ \<Rightarrow> True
         | Inr rt \<Rightarrow> (case ParseRefreshToken X cfg rt now of Inl _ \<Rightarrow> True | Inr _ \<Rightarrow> False)"
  shows "response (RequireAuth X cfg cs db now c) =
           Some (StatusUnauthorized,
             [(''success'', JBool False), (''error'', JString ''Unauthorized''),
              (''message'', JString ''Invalid token''),
              (''details'', JString ''Token validation failed'')])
       \<and> aborted (RequireAuth X cfg cs db now c)
       \<and> next_called (RequireAuth X cfg cs db now c) = next_called c
       \<and> Keys (RequireAuth X cfg cs db now c) = Keys c
       \<and> set_cookies (RequireAuth X cfg cs db now c) = set_cookies c"
proof -
  have "attemptTokenRefresh X cfg cs db now c = (False, c)"
    using assms(3)
    by (auto simp: attemptTokenRefresh_def RefreshToken_def split: sum.splits)
  with assms(1,2) show ?thesis
    by (simp add: RequireAuth_def Abort_def JSON_def)
qed

text \<open>
  The expired access token \<open>A0\<close> without a refresh cookie at instant 1000, and with the
  refresh token \<open>R0\<close> at instant 100000, when that has expired as well.
\<close>

theorem C7_failed_renewal_rejected_witness:
  "response (RequireAuth demo_lib default_cfg NewCookieService seeded_db 1000
       (empty_ctx\<lparr>req_cookies := [''access_token'' \<mapsto> ''A0'']\<rparr>)) =
     Some (401, [(''success'', JBool False), (''error'', JString ''Unauthorized''),
                 (''message'', JString ''Invalid token''),
                 (''details'', JString ''Token validation failed'')])
   \<and> Keys (RequireAuth demo_lib default_cfg NewCookieService seeded_db 1000
       (empty_ctx\<lparr>req_cookies := [''access_token'' \<mapsto> ''A0'']\<rparr>)) = Map.empty
   \<and> aborted (RequireAuth demo_lib default_cfg NewCookieService seeded_db 100000 expired_request)
   \<and> Keys (RequireAuth demo_lib default_cfg NewCookieService seeded_db 100000 expired_request)
       = Map.empty"
proof -
  let ?c = "empty_ctx\<lparr>req_cookies := [''access_token'' \<mapsto> ''A0'']\<rparr>"
  have e1: "extractToken NewCookieService ?c = Inr ''A0''"
    by (simp add: ctx_defs)
  have p1: "ParseAccessToken demo_lib default_cfg ''A0'' 1000 = Inl (Errorf ''token is expired'')"
    by (simp add: demo_defs service_defs)
  have r1: "case GetRefreshToken NewCookieService ?c of
           Inl _ \<Rightarrow> True
         | Inr rt \<Rightarrow> (case ParseRefreshToken demo_lib default_cfg rt 1000 of
                        Inl _ \<Rightarrow> True | Inr _ \<Rightarrow> False)"
    by (simp add: ctx_defs)
  have e2: "extractToken NewCookieService expired_request = Inr ''A0''"
    by (simp add: ctx_defs)
  have p2: "ParseAccessToken demo_lib default_cfg ''A0'' 100000 = Inl (Errorf ''token is expired'')"
    by (simp add: demo_defs service_defs)
  have r2: "case GetRefreshToken NewCookieService expired_request of
           Inl _ \<Rightarrow> True
         | Inr rt \<Rightarrow> (case ParseRefreshToken demo_lib default_cfg rt 100000 of
                        Inl _ \<Rightarrow> True | Inr _ \<Rightarrow> False)"
    by (simp add: ctx_defs demo_defs service_defs)
  show ?thesis
    using C7_failed_renewal_rejected [OF e1 p1 r1, of seeded_db]
      C7_failed_renewal_rejected [OF e2 p2 r2, of seeded_db]
    by (simp add: StatusUnauthorized_def empty_ctx_def expired_request_def)
qed

section \<open>The administrator gate\<close>

text \<open>
  Claim C8. On a request whose attached identity has role \<open>r\<close>, \<open>RequireAdmin\<close> is
  \<open>RequireRole\<close> at the administrator role; it calls \<open>Next\<close>, and does nothing else, when
  \<open>r\<close> is \<open>admin\<close>, and answers 403 Forbidden and aborts for every other \<open>r\<close>, \<open>manager\<close>
  among them.
\<close>

theorem C8_RequireAdmin:
  assumes "Keys c ''role'' = Some (AnyString r)"
  shows "RequireAdmin c = RequireRole RoleAdmin c \<and>
         (r = RoleAdmin \<longrightarrow> RequireAdmin c = Next c) \<and>
         (r \<noteq> RoleAdmin \<longrightarrow>
            RequireAdmin c =
              Abort (JSON c StatusForbidden
                [(''success'', JBool False), (''error'', JString ''Forbidden''),
                 (''message'', JString ''Required role: admin'')]))"
  using assms by (simp add: RequireAdmin_def RequireRole_def RoleAdmin_def)

text \<open>A manager is turned away with 403; an administrator passes.\<close>

theorem C8_RequireAdmin_witness:
  "response (RequireAdmin (empty_ctx\<lparr>Keys := [''role'' \<mapsto> AnyString ''manager'']\<rparr>)) =
     Some (403, [(''success'', JBool False), (''error'', JString ''Forbidden''),
                 (''message'', JString ''Required role: admin'')])
   \<and> aborted (RequireAdmin (empty_ctx\<lparr>Keys := [''role'' \<mapsto> AnyString ''manager'']\<rparr>))
   \<and> \<not> next_called (RequireAdmin (empty_ctx\<lparr>Keys := [''role'' \<mapsto> AnyString ''manager'']\<rparr>))
   \<and> next_called (RequireAdmin (empty_ctx\<lparr>Keys := [''role'' \<mapsto> AnyString ''admin'']\<rparr>))
   \<and> response (RequireAdmin (empty_ctx\<lparr>Keys := [''role'' \<mapsto> AnyString ''admin'']\<rparr>)) = None"
  using C8_RequireAdmin [where c = "empty_ctx\<lparr>Keys := [''role'' \<mapsto> AnyString ''manager'']\<rparr>"
      and r = "''manager''", THEN conjunct2]
    C8_RequireAdmin [where c = "empty_ctx\<lparr>Keys := [''role'' \<mapsto> AnyString ''admin'']\<rparr>"
      and r = "''admin''", THEN conjunct2]
  by (simp add: RoleAdmin_def empty_ctx_def Abort_def JSON_def Next_def StatusForbidden_def)

section \<open>Registration\<close>




section \<open>Login of a deactivated user\<close>

text \<open>
  Claim C10, as amended. For a deactivated user, \<open>Login\<close> with the user's username and
  any password that is not empty, correct or not, returns \<open>ErrUserDeactivated\<close>: the
  active flag is tested before the password is verified. (The username is not empty
  either; an empty username or password is refused before the store is consulted.)
\<close>

theorem C10_Login_deactivated:
  assumes "GetByUsername db (LoginRequest_Username req) = Inr u" and "\<not> IsActive u"
    and "LoginRequest_Username req \<noteq> ''''" and "LoginRequest_Password req \<noteq> ''''"
  shows "Login X cfg db now req = Inl ErrUserDeactivated"
  using assms by (simp add: Login_def getUserByUsername_def)

text \<open>The deactivated administrator, with the correct password and with a wrong one.\<close>

theorem C10_Login_deactivated_witness:
  "Login demo_lib default_cfg deactivated_db 1000
     \<lparr>LoginRequest_Username = ''admin'', LoginRequest_Password = ''admin123''\<rparr>
     = Inl ErrUserDeactivated
   \<and> Login demo_lib default_cfg deactivated_db 1000
     \<lparr>LoginRequest_Username = ''admin'', LoginRequest_Password = ''guess''\<rparr>
     = Inl ErrUserDeactivated"
proof -
  have g: "GetByUsername deactivated_db ''admin'' =
             Inr (seed_admin\<lparr>IsActive := False, UpdatedAt := 500\<rparr>)"
    by (simp add: demo_defs service_defs)
  show ?thesis
    using C10_Login_deactivated [where db = deactivated_db
        and req = "\<lparr>LoginRequest_Username = ''admin'', LoginRequest_Password = ''admin123''\<rparr>"
        and u = "seed_admin\<lparr>IsActive := False, UpdatedAt := 500\<rparr>"
        and X = demo_lib and cfg = default_cfg and now = 1000]
      C10_Login_deactivated [where db = deactivated_db
        and req = "\<lparr>LoginRequest_Username = ''admin'', LoginRequest_Password = ''guess''\<rparr>"
        and u = "seed_admin\<lparr>IsActive := False, UpdatedAt := 500\<rparr>"
        and X = demo_lib and cfg = default_cfg and now = 1000]
      g
    by simp
qed

text \<open>
  Claim C10 as stated fails at the empty password: for the deactivated administrator
  \<open>Login\<close> returns \<open>ErrInvalidCredentials\<close>, not \<open>ErrUserDeactivated\<close>.
\<close>

theorem C10_empty_password_counterexample:
  "GetByUsername deactivated_db ''admin'' = Inr (seed_admin\<lparr>IsActive := False, UpdatedAt := 500\<rparr>)
   \<and> \<not> IsActive (seed_admin\<lparr>IsActive := False, UpdatedAt := 500\<rparr>)
   \<and> Login demo_lib default_cfg deactivated_db 1000
       \<lparr>LoginRequest_Username = ''admin'', LoginRequest_Password = ''''\<rparr> = Inl ErrInvalidCredentials
   \<and> Login demo_lib default_cfg deactivated_db 1000
       \<lparr>LoginRequest_Username = ''admin'', LoginRequest_Password = ''''\<rparr> \<noteq> Inl ErrUserDeactivated"
  by (simp add: demo_defs service_defs)

end
